theory Spec2Isabelle
  imports Complex_Main
begin

section \<open>C numbers\<close>

text \<open>
  A C \<open>double\<close> is an IEEE 754 binary64 number: a real number that the format
  represents, one of the two infinities, or NaN. Every arithmetic operation computes the
  exact real result and rounds it to the nearest representable number, ties to the even
  significand (\<open>rnd\<close>); a result beyond the largest finite number becomes an infinity
  and one below half the least subnormal becomes zero. NaN is contagious and compares
  false with everything, a nonzero finite value divided by zero is an infinity, and
  \<open>0/0\<close>, \<open>inf - inf\<close>, \<open>0 * inf\<close> and the square root of a negative number are NaN.
  The two zeros of the format are one value here, the positive one. Pointer arguments
  are taken to be valid; a pointer field that the code sets to NULL is an \<open>option\<close>.
\<close>

datatype double = Fin real | PInf | NInf | NaN

text \<open>
  Rounding to nearest, ties to even. \<open>binade x\<close> is the exponent of the power of two at
  or below \<open>|x|\<close>, not less than that of the least normal number; the representable
  numbers around \<open>x\<close> are the multiples of two to the power \<open>binade x - 52\<close>.
\<close>

definition round_half_even :: "real \<Rightarrow> int" where
  "round_half_even q =
     (let f = \<lfloor>q\<rfloor>
      in if q - of_int f < 1 / 2 then f
         else if 1 / 2 < q - of_int f then f + 1
         else if even f then f else f + 1)"

definition binade :: "real \<Rightarrow> int" where
  "binade x = max \<lfloor>log 2 \<bar>x\<bar>\<rfloor> (- 1022)"

definition rnd :: "real \<Rightarrow> double" where
  "rnd x =
     (if x = 0 then Fin 0
      else let e = binade x - 52;
               r = of_int (round_half_even (x / 2 powi e)) * 2 powi e
           in if 2 ^ 1024 \<le> \<bar>r\<bar> then (if 0 < x then PInf else NInf) else Fin r)"

fun dneg :: "double \<Rightarrow> double" where
  "dneg (Fin x) = Fin (- x)"
| "dneg PInf = NInf"
| "dneg NInf = PInf"
| "dneg NaN = NaN"

fun dadd :: "double \<Rightarrow> double \<Rightarrow> double" where
  "dadd (Fin x) (Fin y) = rnd (x + y)"
| "dadd NaN b = NaN"
| "dadd a NaN = NaN"
| "dadd PInf NInf = NaN"
| "dadd NInf PInf = NaN"
| "dadd PInf b = PInf"
| "dadd a PInf = PInf"
| "dadd NInf b = NInf"
| "dadd a NInf = NInf"

definition dsub :: "double \<Rightarrow> double \<Rightarrow> double" where
  "dsub a b = dadd a (dneg b)"

fun dsgn :: "double \<Rightarrow> int" where
  "dsgn (Fin x) = (if x = 0 then 0 else if 0 < x then 1 else - 1)"
| "dsgn PInf = 1"
| "dsgn NInf = - 1"
| "dsgn NaN = 0"

fun dmul :: "double \<Rightarrow> double \<Rightarrow> double" where
  "dmul (Fin x) (Fin y) = rnd (x * y)"
| "dmul NaN b = NaN"
| "dmul a NaN = NaN"
| "dmul a b = (if dsgn a * dsgn b = 0 then NaN else if 0 < dsgn a * dsgn b then PInf else NInf)"

fun ddiv :: "double \<Rightarrow> double \<Rightarrow> double" where
  "ddiv (Fin x) (Fin y) =
     (if y \<noteq> 0 then rnd (x / y) else if x = 0 then NaN else if 0 < x then PInf else NInf)"
| "ddiv NaN b = NaN"
| "ddiv a NaN = NaN"
| "ddiv (Fin x) b = Fin 0"
| "ddiv a (Fin y) = (if 0 \<le> y then a else dneg a)"
| "ddiv a b = NaN"

fun dlt :: "double \<Rightarrow> double \<Rightarrow> bool" where
  "dlt (Fin x) (Fin y) = (x < y)"
| "dlt NaN b = False"
| "dlt a NaN = False"
| "dlt a NInf = False"
| "dlt PInf b = False"
| "dlt a b = True"

definition dgt :: "double \<Rightarrow> double \<Rightarrow> bool" where
  "dgt a b = dlt b a"

definition deq :: "double \<Rightarrow> double \<Rightarrow> bool" where
  "deq a b = (a \<noteq> NaN \<and> a = b)"

fun fabs :: "double \<Rightarrow> double" where
  "fabs (Fin x) = Fin \<bar>x\<bar>"
| "fabs PInf = PInf"
| "fabs NInf = PInf"
| "fabs NaN = NaN"

fun dsqrt :: "double \<Rightarrow> double" where
  "dsqrt (Fin x) = (if 0 \<le> x then rnd (sqrt x) else NaN)"
| "dsqrt PInf = PInf"
| "dsqrt NInf = NaN"
| "dsqrt NaN = NaN"

definition double_of_int :: "int \<Rightarrow> double" where
  "double_of_int i = rnd (of_int i)"

text \<open>A decimal literal of the source is the double nearest to it.\<close>

definition c_0_1 :: double where
  "c_0_1 = rnd (1 / 10)"


definition c_0_8 :: double where
  "c_0_8 = rnd (8 / 10)"

definition c_1e_6 :: double where
  "c_1e_6 = rnd (1 / 10 ^ 6)"

definition c_1e_10 :: double where
  "c_1e_10 = rnd (1 / 10 ^ 10)"

text \<open>
  A C \<open>int\<close> is 32 bits wide. Counters that the code increments without a bound are
  wrapped to the two's-complement range after each increment.
\<close>

definition int32_wrap :: "int \<Rightarrow> int" where
  "int32_wrap i = (i + 2147483648) mod 4294967296 - 2147483648"

section \<open>Statistics accumulator\<close>

text \<open>
  The fields \<open>min\<close>, \<open>max\<close> and \<open>sum\<close> of the source are \<open>min_st\<close>, \<open>max_st\<close> and
  \<open>sum_st\<close> here. \<open>INFINITY\<close> is \<open>PInf\<close>.
\<close>

record statistics_t =
  mean :: double
  min_st :: double
  max_st :: double
  std_deviation :: double
  variance :: double
  median :: double
  sample_count :: int
  sum_st :: double
  sum_squares :: double

definition init_statistics :: statistics_t where
  "init_statistics =
     \<lparr> mean = Fin 0, min_st = PInf, max_st = NInf, std_deviation = Fin 0, variance = Fin 0,
       median = Fin 0, sample_count = 0, sum_st = Fin 0, sum_squares = Fin 0 \<rparr>"

definition update_statistics :: "statistics_t \<Rightarrow> double \<Rightarrow> statistics_t" where
  "update_statistics stats v =
     (let s1 = stats\<lparr> sample_count := int32_wrap (sample_count stats + 1) \<rparr>;
          s2 = s1\<lparr> sum_st := dadd (sum_st s1) v \<rparr>;
          s3 = s2\<lparr> sum_squares := dadd (sum_squares s2) (dmul v v) \<rparr>;
          s4 = (if dlt v (min_st s3) then s3\<lparr> min_st := v \<rparr> else s3)
      in (if dgt v (max_st s4) then s4\<lparr> max_st := v \<rparr> else s4))"

definition finalize_statistics :: "statistics_t \<Rightarrow> statistics_t" where
  "finalize_statistics stats =
     (if sample_count stats = 0 then stats
      else
        let s1 = stats\<lparr> mean := ddiv (sum_st stats) (double_of_int (sample_count stats)) \<rparr>;
            s2 = s1\<lparr> variance :=
                       dsub (ddiv (sum_squares s1) (double_of_int (sample_count s1)))
                            (dmul (mean s1) (mean s1)) \<rparr>;
            s3 = s2\<lparr> std_deviation := dsqrt (variance s2) \<rparr>
        in s3\<lparr> median := mean s3 \<rparr>)"

text \<open>The accumulator after a stream of values, finalized.\<close>

definition feed_statistics :: "double list \<Rightarrow> statistics_t \<Rightarrow> statistics_t" where
  "feed_statistics xs s = fold (\<lambda>v st. update_statistics st v) xs s"

definition run_statistics :: "double list \<Rightarrow> statistics_t" where
  "run_statistics xs = finalize_statistics (feed_statistics xs init_statistics)"

subsection \<open>The reference computation that re-scans the sequence\<close>


definition ref_sum :: "double list \<Rightarrow> double" where
  "ref_sum xs = foldl dadd (Fin 0) xs"

definition ref_sum_squares :: "double list \<Rightarrow> double" where
  "ref_sum_squares xs = foldl dadd (Fin 0) (map (\<lambda>v. dmul v v) xs)"





section \<open>Readings\<close>

record precise_time_t =
  timestamp :: int
  nanoseconds :: int

text \<open>
  A reading; its fields carry the prefix \<open>sd\<close>. The sensor kind is a C enum, that is an
  \<open>int\<close>: the logger checks its range itself. Strings are the characters before the
  terminating NUL.
\<close>

record sensor_data_t =
  sd_type :: int
  sd_value :: double
  sd_timestamp :: precise_time_t
  sd_unit :: string
  sd_description :: string


section \<open>Moving average filter\<close>

text \<open>
  \<open>buffer\<close> is \<open>None\<close> for a NULL pointer. \<open>malloc\<close> is taken to succeed.
  \<open>c_rem\<close> is C's \<open>%\<close>, which truncates towards zero. The fields \<open>sample_count\<close> and
  \<open>sum\<close> of the source are \<open>ma_sample_count\<close> and \<open>ma_sum\<close> here; the count never
  exceeds \<open>buffer_size\<close>, so its increment cannot overflow.
\<close>

record moving_average_t =
  buffer :: "double list option"
  buffer_size :: int
  current_index :: int
  ma_sample_count :: int
  ma_sum :: double

definition c_rem :: "int \<Rightarrow> int \<Rightarrow> int" where
  "c_rem a b = sgn a * (\<bar>a\<bar> mod \<bar>b\<bar>)"

definition init_moving_average :: "int \<Rightarrow> moving_average_t option" where
  "init_moving_average window_size =
     (if window_size \<le> 0 then None
      else Some \<lparr> buffer = Some (replicate (nat window_size) (Fin 0)),
                  buffer_size = window_size, current_index = 0,
                  ma_sample_count = 0, ma_sum = Fin 0 \<rparr>)"

definition update_moving_average :: "moving_average_t \<Rightarrow> double \<Rightarrow> double \<times> moving_average_t" where
  "update_moving_average ma v =
     (case buffer ma of
        None \<Rightarrow> (Fin 0, ma)
      | Some buf \<Rightarrow>
          let m1 = (if ma_sample_count ma \<ge> buffer_size ma
                    then ma\<lparr> ma_sum := dsub (ma_sum ma) (buf ! nat (current_index ma)) \<rparr>
                    else ma\<lparr> ma_sample_count := ma_sample_count ma + 1 \<rparr>);
              m2 = m1\<lparr> buffer := Some (buf[nat (current_index m1) := v]) \<rparr>;
              m3 = m2\<lparr> ma_sum := dadd (ma_sum m2) v \<rparr>;
              m4 = m3\<lparr> current_index := c_rem (current_index m3 + 1) (buffer_size m3) \<rparr>
          in (ddiv (ma_sum m4) (double_of_int (ma_sample_count m4)), m4))"

text \<open>The filter state after a stream of values.\<close>

definition feed_moving_average :: "double list \<Rightarrow> moving_average_t \<Rightarrow> moving_average_t" where
  "feed_moving_average xs ma = fold (\<lambda>v m. snd (update_moving_average m v)) xs ma"

text \<open>
  The running sum after the first \<open>k\<close> values of the stream \<open>ys\<close>, for a window of \<open>c\<close>
  slots: once the window is full, the value inserted \<open>c\<close> steps earlier is subtracted
  before the new value is added.
\<close>

fun running_sum :: "nat \<Rightarrow> double list \<Rightarrow> nat \<Rightarrow> double" where
  "running_sum c ys 0 = Fin 0"
| "running_sum c ys (Suc k) =
     dadd (if c \<le> k then dsub (running_sum c ys k) (ys ! (k - c)) else running_sum c ys k)
          (ys ! k)"

text \<open>
  The state of the filter after the stream \<open>xs\<close>, for a window of \<open>c\<close> slots: the slot
  of every value still in the window holds it, and the sum field is the running sum.
\<close>

definition ma_inv :: "nat \<Rightarrow> double list \<Rightarrow> moving_average_t \<Rightarrow> bool" where
  "ma_inv c xs m =
     ((\<exists>buf. buffer m = Some buf \<and> length buf = c
             \<and> (\<forall>i<length xs. length xs \<le> i + c \<longrightarrow> buf ! (i mod c) = xs ! i))
      \<and> buffer_size m = int c
      \<and> current_index m = int (length xs mod c)
      \<and> ma_sample_count m = int (min (length xs) c)
      \<and> ma_sum m = running_sum c xs (length xs))"

section \<open>Anomaly detector\<close>

text \<open>The field \<open>window_size\<close> of the configuration is \<open>cfg_window_size\<close> here.\<close>

record anomaly_config_t =
  threshold_multiplier :: double
  absolute_threshold :: double
  cfg_window_size :: int
  min_samples_for_analysis :: int

record anomaly_result_t =
  is_anomaly :: int
  severity :: double
  description :: string
  detected_at :: precise_time_t

text \<open>
  \<open>fmt2\<close> is the C library's rendering of a double under \<open>%.2f\<close>; \<open>snprintf\<close> keeps at
  most 127 characters. The pointers are taken to be valid: the source reads
  \<open>data->timestamp\<close> before its NULL checks.
\<close>

definition detect_anomaly ::
  "(double \<Rightarrow> string) \<Rightarrow> sensor_data_t \<Rightarrow> statistics_t \<Rightarrow> anomaly_config_t \<Rightarrow> anomaly_result_t" where
  "detect_anomaly fmt2 data baseline_stats config =
     (let result = \<lparr> is_anomaly = 0, severity = Fin 0, description = ''Normal'',
                      detected_at = sd_timestamp data \<rparr>
      in if sample_count baseline_stats < min_samples_for_analysis config then result
         else
           let deviation = fabs (dsub (sd_value data) (mean baseline_stats));
               threshold = dmul (threshold_multiplier config) (std_deviation baseline_stats);
               r1 = (if dgt deviation threshold
                     then let r = result\<lparr> is_anomaly := 1 \<rparr>;
                              r = r\<lparr> severity := ddiv deviation (std_deviation baseline_stats) \<rparr>
                          in r\<lparr> description :=
                                 take 127 (''Statistical anomaly: '' @ fmt2 (severity r)
                                           @ '' std devs from mean'') \<rparr>
                     else result)
           in if dgt (fabs (sd_value data)) (absolute_threshold config)
              then let r2 = r1\<lparr> is_anomaly := 1 \<rparr>
                   in if deq (severity r2) (Fin 0)
                      then r2\<lparr> severity := ddiv (fabs (sd_value data)) (absolute_threshold config),
                               description :=
                                 take 127 (''Absolute threshold exceeded: '' @ fmt2 (sd_value data)) \<rparr>
                      else r2
              else r1)"

section \<open>Trend estimator\<close>

record trend_analysis_t =
  slope :: double
  correlation :: double
  trend_direction :: string
  confidence :: double

definition neutral_trend :: trend_analysis_t where
  "neutral_trend = \<lparr> slope = Fin 0, correlation = Fin 0, trend_direction = ''stable'',
                     confidence = Fin 0 \<rparr>"

text \<open>The first loop: the sums of \<open>x\<close>, \<open>y\<close>, \<open>x * y\<close> and \<open>x * x\<close> over the window.\<close>

definition trend_sums ::
  "sensor_data_t list \<Rightarrow> int \<Rightarrow> int \<Rightarrow> double \<times> double \<times> double \<times> double" where
  "trend_sums data_array start_idx window_size =
     fold (\<lambda>i (sum_x, sum_y, sum_xy, sum_x2).
             let x = double_of_int (int i);
                 y = sd_value (data_array ! nat (start_idx + int i))
             in (dadd sum_x x, dadd sum_y y, dadd sum_xy (dmul x y), dadd sum_x2 (dmul x x)))
          [0..<nat window_size] (Fin 0, Fin 0, Fin 0, Fin 0)"

text \<open>The second loop: the sums of squared and mixed deviations from the means.\<close>

definition trend_deviations ::
  "sensor_data_t list \<Rightarrow> int \<Rightarrow> int \<Rightarrow> double \<Rightarrow> double \<Rightarrow> double \<times> double \<times> double" where
  "trend_deviations data_array start_idx window_size mean_x mean_y =
     fold (\<lambda>i (sum_dx2, sum_dy2, sum_dxdy).
             let x = double_of_int (int i);
                 y = sd_value (data_array ! nat (start_idx + int i));
                 dx = dsub x mean_x;
                 dy = dsub y mean_y
             in (dadd sum_dx2 (dmul dx dx), dadd sum_dy2 (dmul dy dy), dadd sum_dxdy (dmul dx dy)))
          [0..<nat window_size] (Fin 0, Fin 0, Fin 0)"

definition trend_denominator :: "int \<Rightarrow> double \<times> double \<times> double \<times> double \<Rightarrow> double" where
  "trend_denominator window_size acc =
     (case acc of (sum_x, sum_y, sum_xy, sum_x2) \<Rightarrow>
        dsub (dmul (double_of_int window_size) sum_x2) (dmul sum_x sum_x))"

text \<open>The body of \<open>analyze_trend\<close> after the first loop, from the sums it computed.\<close>

definition trend_regression ::
  "sensor_data_t list \<Rightarrow> int \<Rightarrow> int \<Rightarrow> double \<times> double \<times> double \<times> double \<Rightarrow> trend_analysis_t" where
  "trend_regression data_array start_idx window_size acc =
     (case acc of (sum_x, sum_y, sum_xy, sum_x2) \<Rightarrow>
        let trend = neutral_trend;
            n = double_of_int window_size;
            denominator = trend_denominator window_size acc
        in if dgt (fabs denominator) c_1e_10
           then
             let t1 = trend\<lparr> slope := ddiv (dsub (dmul n sum_xy) (dmul sum_x sum_y)) denominator \<rparr>;
                 mean_x = ddiv sum_x n;
                 mean_y = ddiv sum_y n
             in case trend_deviations data_array start_idx window_size mean_x mean_y of
                  (sum_dx2, sum_dy2, sum_dxdy) \<Rightarrow>
                    let t2 = (if dgt sum_dx2 (Fin 0) \<and> dgt sum_dy2 (Fin 0)
                              then let t = t1\<lparr> correlation :=
                                                 ddiv sum_dxdy (dsqrt (dmul sum_dx2 sum_dy2)) \<rparr>
                                   in t\<lparr> confidence := fabs (correlation t) \<rparr>
                              else t1)
                    in if dlt (fabs (slope t2)) c_1e_6
                       then t2\<lparr> trend_direction := ''stable'' \<rparr>
                       else if dgt (slope t2) (Fin 0)
                       then t2\<lparr> trend_direction := ''increasing'' \<rparr>
                       else t2\<lparr> trend_direction := ''decreasing'' \<rparr>
           else trend)"

definition analyze_trend :: "sensor_data_t list \<Rightarrow> int \<Rightarrow> int \<Rightarrow> trend_analysis_t" where
  "analyze_trend data_array count window_size =
     (if count < window_size \<or> window_size < 2 then neutral_trend
      else let start_idx = count - window_size
           in trend_regression data_array start_idx window_size
                (trend_sums data_array start_idx window_size))"

section \<open>Peak frequency estimator\<close>

text \<open>
  The loop over the interior points: the number of strict local maxima seen so far and
  the running maximum, which starts at the caller's \<open>0.0\<close>.
\<close>

definition peak_step :: "double list \<Rightarrow> nat \<Rightarrow> int \<times> double \<Rightarrow> int \<times> double" where
  "peak_step values i st =
     (case st of (peak_count, amplitude) \<Rightarrow>
        if dgt (values ! i) (values ! (i - 1)) \<and> dgt (values ! i) (values ! (i + 1))
        then (peak_count + 1, if dgt (values ! i) amplitude then values ! i else amplitude)
        else (peak_count, amplitude))"

definition peak_scan :: "double list \<Rightarrow> int \<Rightarrow> int \<times> double" where
  "peak_scan values count = fold (peak_step values) [1..<nat (count - 1)] (0, Fin 0)"

text \<open>
  The result is \<open>None\<close> for the return value \<open>-1\<close>, where the two output cells are left
  untouched, and otherwise the pair written to \<open>*dominant_frequency\<close> and \<open>*amplitude\<close>.
\<close>

definition analyze_frequency_spectrum :: "double list \<Rightarrow> int \<Rightarrow> (double \<times> double) option" where
  "analyze_frequency_spectrum values count =
     (if count < 4 then None
      else case peak_scan values count of
        (peak_count, amplitude) \<Rightarrow>
          let total_time = dmul (double_of_int count) c_0_1;
              dominant_frequency =
                (if peak_count > 0 \<and> dgt total_time (Fin 0)
                 then ddiv (double_of_int peak_count) total_time else Fin 0)
          in Some (dominant_frequency, amplitude))"

subsection \<open>The estimator as the specification words it\<close>




section \<open>Bridge classifier\<close>

record bridge_analysis_t =
  rms_amplitude :: double
  peak_amplitude :: double
  dominant_frequency :: double
  safety_status :: int
  safety_message :: string




section \<open>Buffered rotating logger\<close>

subsection \<open>The C library and the file system\<close>










subsection \<open>The logger\<close>

record logger_config_t =
  filename :: string
  directory :: string
  max_file_size_mb :: int
  auto_rotate :: int
  log_buffer_size :: int
  flush_interval_ms :: int

text \<open>
  \<open>log_file\<close> is the source's field \<open>file\<close>; it is \<open>None\<close> for a NULL stream. The
  fields \<open>sample_count\<close> and \<open>buffer\<close> of the logger and \<open>buffer_size\<close> of its
  configuration carry the prefix \<open>log\<close>. \<open>current_file_size\<close> is a C \<open>long\<close>.
\<close>

record data_logger_t =
  log_file :: "string option"
  config :: logger_config_t
  current_filename :: string
  current_file_size :: int
  log_sample_count :: int
  log_buffer :: "sensor_data_t list"
  buffer_index :: int
  last_flush :: precise_time_t












subsection \<open>What a flush writes and where a rotation goes\<close>



subsection \<open>A sample logger\<close>



section \<open>Rounding to the nearest double\<close>

text \<open>
  The rounding function is computed at a given number from the exponent of its binade
  and the integer significand next to it.
\<close>

lemma round_half_even_near:
  assumes "\<bar>q - of_int n\<bar> < 1 / 2"
  shows "round_half_even q = n"
proof (cases "of_int n \<le> q")
  case True
  then have "\<lfloor>q\<rfloor> = n" using assms by (intro floor_unique) auto
  then show ?thesis using assms True by (simp add: round_half_even_def)
next
  case False
  then have f: "\<lfloor>q\<rfloor> = n - 1" using assms by (intro floor_unique) auto
  show ?thesis using assms False by (simp add: round_half_even_def f)
qed

lemma round_half_even_tie_down:
  assumes "q = of_int n + 1 / 2" "even n"
  shows "round_half_even q = n"
proof -
  have "\<lfloor>q\<rfloor> = n" using assms by (intro floor_unique) auto
  then show ?thesis using assms by (simp add: round_half_even_def)
qed

lemma round_half_even_tie_up:
  assumes "q = of_int n - 1 / 2" "even n"
  shows "round_half_even q = n"
proof -
  have f: "\<lfloor>q\<rfloor> = n - 1" using assms by (intro floor_unique) auto
  show ?thesis unfolding round_half_even_def Let_def f using assms by simp
qed

lemma round_half_even_nonneg: "0 \<le> q \<Longrightarrow> 0 \<le> round_half_even q"
  by (auto simp: round_half_even_def Let_def)

lemma binade_eq:
  assumes "x \<noteq> 0" "2 powi E \<le> \<bar>x\<bar> \<or> E = - 1022" "\<bar>x\<bar> < 2 powi (E + 1)" "- 1022 \<le> E"
  shows "binade x = E"
proof -
  have pos: "0 < \<bar>x\<bar>" using assms(1) by simp
  have pw: "\<And>k. (2::real) powr real_of_int k = 2 powi k"
    by (rule powr_real_of_int') simp_all
  have up: "\<lfloor>log 2 \<bar>x\<bar>\<rfloor> \<le> E"
  proof -
    have "\<bar>x\<bar> < 2 powr (of_int (E + 1))" using assms(3) unfolding pw .
    then have "log 2 \<bar>x\<bar> < of_int (E + 1)" using pos by (simp add: log_less_iff)
    then have "\<lfloor>log 2 \<bar>x\<bar>\<rfloor> < E + 1" unfolding floor_less_iff .
    then show ?thesis by simp
  qed
  show ?thesis
  proof (cases "2 powi E \<le> \<bar>x\<bar>")
    case True
    then have "2 powr (of_int E) \<le> \<bar>x\<bar>" unfolding pw .
    then have "of_int E \<le> log 2 \<bar>x\<bar>" using pos by (simp add: le_log_iff)
    then have "E \<le> \<lfloor>log 2 \<bar>x\<bar>\<rfloor>" unfolding le_floor_iff .
    then show ?thesis using up assms(4) by (simp add: binade_def)
  next
    case False
    then have "E = - 1022" using assms(2) by simp
    then show ?thesis using up by (simp add: binade_def)
  qed
qed

lemma rnd_cert:
  assumes "x \<noteq> 0" "2 powi E \<le> \<bar>x\<bar> \<or> E = - 1022" "\<bar>x\<bar> < 2 powi (E + 1)" "- 1022 \<le> E"
    and "round_half_even (x / 2 powi (E - 52)) = n"
    and "\<bar>of_int n * 2 powi (E - 52)\<bar> < (2::real) ^ 1024"
  shows "rnd x = Fin (of_int n * 2 powi (E - 52))"
  using assms(1,5,6) by (simp add: rnd_def binade_eq [OF assms(1-4)] Let_def)

lemma rnd_zero: "rnd 0 = Fin 0"
  by (simp add: rnd_def)

lemma rnd_not_NaN: "rnd x \<noteq> NaN"
  by (simp add: rnd_def Let_def)

lemma rnd_nonneg: "0 \<le> x \<Longrightarrow> \<not> dlt (rnd x) (Fin 0)"
proof -
  assume x: "0 \<le> x"
  have "0 \<le> x / 2 powi (binade x - 52)" using x by simp
  then have "0 \<le> round_half_even (x / 2 powi (binade x - 52))" by (rule round_half_even_nonneg)
  then have "0 \<le> real_of_int (round_half_even (x / 2 powi (binade x - 52))) * 2 powi (binade x - 52)"
    by simp
  then show ?thesis using x by (auto simp: rnd_def Let_def)
qed

lemma rnd_cert_small:
  assumes "x \<noteq> 0" "2 powi E \<le> \<bar>x\<bar> \<or> E = - 1022" "\<bar>x\<bar> < 2 powi (E + 1)" "- 1022 \<le> E"
    and "round_half_even (x / 2 powi (E - 52)) = n"
    and "\<bar>n\<bar> \<le> 9007199254740992" and "E \<le> 1022"
  shows "rnd x = Fin (of_int n * 2 powi (E - 52))"
proof -
  have "\<bar>real_of_int n * 2 powi (E - 52)\<bar> = real_of_int \<bar>n\<bar> * 2 powi (E - 52)"
    by (simp add: abs_mult)
  also have "\<dots> \<le> 2 ^ 53 * 2 powi (E - 52)"
  proof (rule mult_right_mono)
    have "real_of_int \<bar>n\<bar> \<le> real_of_int 9007199254740992"
      using assms(6) by (simp only: of_int_le_iff)
    then show "real_of_int \<bar>n\<bar> \<le> 2 ^ 53" by simp
  qed simp
  also have "\<dots> = 2 powi 53 * 2 powi (E - 52)" by simp
  also have "\<dots> = 2 powi (53 + (E - 52))" by (rule power_int_add [symmetric]) simp
  also have "\<dots> = 2 powi (E + 1)" by (simp add: algebra_simps)
  also have "\<dots> \<le> 2 powi 1023" using assms(7) by (intro power_int_increasing) simp_all
  also have "\<dots> < (2::real) ^ 1024" by simp
  finally show ?thesis by (rule rnd_cert [OF assms(1-5)])
qed

lemma dsqrt_NaN_iff: "dsqrt v = NaN \<longleftrightarrow> v = NaN \<or> dlt v (Fin 0)"
  by (cases v) (simp_all add: rnd_not_NaN)

lemma dsqrt_nonneg: "\<not> dlt (dsqrt v) (Fin 0)"
  by (cases v) (simp_all add: rnd_nonneg)

subsection \<open>The roundings that the examples use\<close>

lemma rnd_value_1: "rnd (12980742146337070512478121581609 / 1298074214633706907132624082305024) = Fin (1441151880758559 / 144115188075855872)"
  using rnd_cert_small [of "12980742146337070512478121581609 / 1298074214633706907132624082305024" "- 7" "5764607523034236"]
  by (simp add: round_half_even_near [of _ "5764607523034236"])

lemma rnd_value_2: "rnd (3602879701896397 / 36028797018963968) = Fin (3602879701896397 / 36028797018963968)"
  using rnd_cert_small [of "3602879701896397 / 36028797018963968" "- 4" "7205759403792794"]
  by (simp add: round_half_even_near [of _ "7205759403792794"])

lemma rnd_value_3: "rnd (1441151880758559 / 144115188075855872) = Fin (1441151880758559 / 144115188075855872)"
  using rnd_cert_small [of "1441151880758559 / 144115188075855872" "- 7" "5764607523034236"]
  by (simp add: round_half_even_near [of _ "5764607523034236"])

lemma rnd_value_4: "rnd (3602879701896397 / 18014398509481984) = Fin (3602879701896397 / 18014398509481984)"
  using rnd_cert_small [of "3602879701896397 / 18014398509481984" "- 3" "7205759403792794"]
  by (simp add: round_half_even_near [of _ "7205759403792794"])

lemma rnd_value_5: "rnd (1441151880758559 / 72057594037927936) = Fin (1441151880758559 / 72057594037927936)"
  using rnd_cert_small [of "1441151880758559 / 72057594037927936" "- 6" "5764607523034236"]
  by (simp add: round_half_even_near [of _ "5764607523034236"])

lemma rnd_value_6: "rnd (10808639105689191 / 36028797018963968) = Fin (1351079888211149 / 4503599627370496)"
  using rnd_cert_small [of "10808639105689191 / 36028797018963968" "- 2" "5404319552844596"]
  by (simp add: round_half_even_tie_up [of _ "5404319552844596"])

lemma rnd_value_7: "rnd (4323455642275677 / 144115188075855872) = Fin (4323455642275677 / 144115188075855872)"
  using rnd_cert_small [of "4323455642275677 / 144115188075855872" "- 6" "8646911284551354"]
  by (simp add: round_half_even_near [of _ "8646911284551354"])

lemma rnd_value_8: "rnd (3) = Fin (3)"
  using rnd_cert_small [of "3" "1" "6755399441055744"]
  by (simp add: round_half_even_near [of _ "6755399441055744"])

lemma rnd_value_9: "rnd (1351079888211149 / 13510798882111488) = Fin (7205759403792795 / 72057594037927936)"
  using rnd_cert_small [of "1351079888211149 / 13510798882111488" "- 4" "7205759403792795"]
  by (simp add: round_half_even_near [of _ "7205759403792795"])

lemma rnd_value_10: "rnd (51922968585348296461431293912025 / 5192296858534827628530496329220096) = Fin (5764607523034237 / 576460752303423488)"
  using rnd_cert_small [of "51922968585348296461431293912025 / 5192296858534827628530496329220096" "- 7" "5764607523034237"]
  by (simp add: round_half_even_near [of _ "5764607523034237"])

lemma rnd_value_11: "rnd (- (1 / 576460752303423488)) = Fin (- (1 / 576460752303423488))"
  using rnd_cert_small [of "- (1 / 576460752303423488)" "- 59" "- 4503599627370496"]
  by (simp add: round_half_even_near [of _ "- 4503599627370496"])

lemma rnd_value_12: "rnd (1) = Fin (1)"
  using rnd_cert_small [of "1" "0" "4503599627370496"]
  by (simp add: round_half_even_near [of _ "4503599627370496"])

lemma rnd_value_13: "rnd (2) = Fin (2)"
  using rnd_cert_small [of "2" "1" "4503599627370496"]
  by (simp add: round_half_even_near [of _ "4503599627370496"])

lemma rnd_value_14: "rnd (4) = Fin (4)"
  using rnd_cert_small [of "4" "2" "4503599627370496"]
  by (simp add: round_half_even_near [of _ "4503599627370496"])

lemma rnd_value_15: "rnd (5) = Fin (5)"
  using rnd_cert_small [of "5" "2" "5629499534213120"]
  by (simp add: round_half_even_near [of _ "5629499534213120"])

lemma rnd_value_16: "rnd (6) = Fin (6)"
  using rnd_cert_small [of "6" "2" "6755399441055744"]
  by (simp add: round_half_even_near [of _ "6755399441055744"])

lemma rnd_value_17: "rnd (8) = Fin (8)"
  using rnd_cert_small [of "8" "3" "4503599627370496"]
  by (simp add: round_half_even_near [of _ "4503599627370496"])

lemma rnd_value_18: "rnd (9) = Fin (9)"
  using rnd_cert_small [of "9" "3" "5066549580791808"]
  by (simp add: round_half_even_near [of _ "5066549580791808"])

lemma rnd_value_19: "rnd (10) = Fin (10)"
  using rnd_cert_small [of "10" "3" "5629499534213120"]
  by (simp add: round_half_even_near [of _ "5629499534213120"])

lemma rnd_value_20: "rnd (9 / 2) = Fin (9 / 2)"
  using rnd_cert_small [of "9 / 2" "2" "5066549580791808"]
  by (simp add: round_half_even_near [of _ "5066549580791808"])

lemma rnd_value_21: "rnd (1 / 2) = Fin (1 / 2)"
  using rnd_cert_small [of "1 / 2" "- 1" "4503599627370496"]
  by (simp add: round_half_even_near [of _ "4503599627370496"])

lemma rnd_value_22: "rnd (10000000000000000) = Fin (10000000000000000)"
  using rnd_cert_small [of "10000000000000000" "53" "5000000000000000"]
  by (simp add: round_half_even_near [of _ "5000000000000000"])

lemma rnd_value_23: "rnd (10000000000000001) = Fin (10000000000000000)"
  using rnd_cert_small [of "10000000000000001" "53" "5000000000000000"]
  by (simp add: round_half_even_tie_down [of _ "5000000000000000"])

lemma rnd_value_24: "rnd (1 / 10) = Fin (3602879701896397 / 36028797018963968)"
  using rnd_cert_small [of "1 / 10" "- 4" "7205759403792794"]
  by (simp add: round_half_even_near [of _ "7205759403792794"])

lemma rnd_value_25: "rnd (3 / 10) = Fin (5404319552844595 / 18014398509481984)"
  using rnd_cert_small [of "3 / 10" "- 2" "5404319552844595"]
  by (simp add: round_half_even_near [of _ "5404319552844595"])

lemma rnd_value_26: "rnd (4 / 5) = Fin (3602879701896397 / 4503599627370496)"
  using rnd_cert_small [of "4 / 5" "- 1" "7205759403792794"]
  by (simp add: round_half_even_near [of _ "7205759403792794"])

lemma rnd_value_27: "rnd (1 / 1000000) = Fin (4722366482869645 / 4722366482869645213696)"
  using rnd_cert_small [of "1 / 1000000" "- 20" "4722366482869645"]
  by (simp add: round_half_even_near [of _ "4722366482869645"])

lemma rnd_value_28: "rnd (1 / 10000000000) = Fin (7737125245533627 / 77371252455336267181195264)"
  using rnd_cert_small [of "1 / 10000000000" "- 34" "7737125245533627"]
  by (simp add: round_half_even_near [of _ "7737125245533627"])

lemma rnd_value_29: "rnd (3602879701896397 / 9007199254740992) = Fin (3602879701896397 / 9007199254740992)"
  using rnd_cert_small [of "3602879701896397 / 9007199254740992" "- 2" "7205759403792794"]
  by (simp add: round_half_even_near [of _ "7205759403792794"])

lemma rnd_value_30: "rnd (9007199254740992 / 3602879701896397) = Fin (5 / 2)"
  using rnd_cert_small [of "9007199254740992 / 3602879701896397" "1" "5629499534213120"]
  by (simp add: round_half_even_near [of _ "5629499534213120"])

lemma rnd_value_31: "rnd (18014398509481985 / 36028797018963968) = Fin (1 / 2)"
  using rnd_cert_small [of "18014398509481985 / 36028797018963968" "- 1" "4503599627370496"]
  by (simp add: round_half_even_near [of _ "4503599627370496"])

lemma rnd_value_32: "rnd (12) = Fin (12)"
  using rnd_cert_small [of "12" "3" "6755399441055744"]
  by (simp add: round_half_even_near [of _ "6755399441055744"])

lemma rnd_value_33: "rnd (10808639105689191 / 9007199254740992) = Fin (1351079888211149 / 1125899906842624)"
  using rnd_cert_small [of "10808639105689191 / 9007199254740992" "0" "5404319552844596"]
  by (simp add: round_half_even_tie_up [of _ "5404319552844596"])

lemma rnd_value_34: "rnd (3377699720527872 / 1351079888211149) = Fin (5629499534213119 / 2251799813685248)"
  using rnd_cert_small [of "3377699720527872 / 1351079888211149" "1" "5629499534213119"]
  by (simp add: round_half_even_near [of _ "5629499534213119"])

lemma rnd_value_35: "rnd (29206669829258403248756220714025 / 324518553658426726783156020576256) = Fin (3242591731706757 / 36028797018963968)"
  using rnd_cert_small [of "29206669829258403248756220714025 / 324518553658426726783156020576256" "- 4" "6485183463413514"]
  by (simp add: round_half_even_near [of _ "6485183463413514"])

lemmas rnd_values = rnd_zero rnd_value_1 rnd_value_2 rnd_value_3 rnd_value_4 rnd_value_5
  rnd_value_6 rnd_value_7 rnd_value_8 rnd_value_9 rnd_value_10 rnd_value_11 rnd_value_12
  rnd_value_13 rnd_value_14 rnd_value_15 rnd_value_16 rnd_value_17 rnd_value_18 rnd_value_19
  rnd_value_20 rnd_value_21 rnd_value_22 rnd_value_23 rnd_value_24 rnd_value_25 rnd_value_26
  rnd_value_27 rnd_value_28 rnd_value_29 rnd_value_30 rnd_value_31 rnd_value_32 rnd_value_33
  rnd_value_34 rnd_value_35

lemma int32_wrap_id: "- 2147483648 \<le> i \<Longrightarrow> i < 2147483648 \<Longrightarrow> int32_wrap i = i"
  by (simp add: int32_wrap_def)

lemma update_statistics_fields:
  "sample_count (update_statistics s v) = int32_wrap (sample_count s + 1)"
  "sum_st (update_statistics s v) = dadd (sum_st s) v"
  "sum_squares (update_statistics s v) = dadd (sum_squares s) (dmul v v)"
  "min_st (update_statistics s v) = (if dlt v (min_st s) then v else min_st s)"
  "max_st (update_statistics s v) = (if dgt v (max_st s) then v else max_st s)"
  by (simp_all add: update_statistics_def Let_def)

lemma feed_statistics_Cons:
  "feed_statistics (x # xs) s = feed_statistics xs (update_statistics s x)"
  by (simp add: feed_statistics_def)

lemma feed_count:
  "0 \<le> sample_count s \<Longrightarrow> sample_count s + int (length xs) < 2147483648 \<Longrightarrow>
   sample_count (feed_statistics xs s) = sample_count s + int (length xs)"
proof (induction xs arbitrary: s)
  case Nil
  then show ?case by (simp add: feed_statistics_def)
next
  case (Cons x xs)
  have st: "sample_count (update_statistics s x) = sample_count s + 1"
    using Cons.prems by (simp add: update_statistics_fields int32_wrap_id)
  have "sample_count (feed_statistics xs (update_statistics s x)) =
        sample_count (update_statistics s x) + int (length xs)"
    using Cons.prems st by (intro Cons.IH) simp_all
  then show ?case using st by (simp add: feed_statistics_Cons)
qed

lemma feed_sum: "sum_st (feed_statistics xs s) = foldl dadd (sum_st s) xs"
  by (induction xs arbitrary: s) (simp_all add: feed_statistics_def update_statistics_fields)

lemma feed_sum_squares:
  "sum_squares (feed_statistics xs s) = foldl dadd (sum_squares s) (map (\<lambda>v. dmul v v) xs)"
  by (induction xs arbitrary: s) (simp_all add: feed_statistics_def update_statistics_fields)









lemma feed_init_count:
  "length xs < 2147483648 \<Longrightarrow> sample_count (feed_statistics xs init_statistics) = int (length xs)"
  using feed_count [of init_statistics xs] by (simp add: init_statistics_def)

lemma feed_init_sum: "sum_st (feed_statistics xs init_statistics) = ref_sum xs"
  by (simp add: feed_sum ref_sum_def init_statistics_def)

lemma feed_init_sum_squares:
  "sum_squares (feed_statistics xs init_statistics) = ref_sum_squares xs"
  by (simp add: feed_sum_squares ref_sum_squares_def init_statistics_def)

lemma finalize_fields:
  "sample_count (finalize_statistics s) = sample_count s"
  "sum_st (finalize_statistics s) = sum_st s"
  "sum_squares (finalize_statistics s) = sum_squares s"
  "min_st (finalize_statistics s) = min_st s"
  "max_st (finalize_statistics s) = max_st s"
  by (simp_all add: finalize_statistics_def Let_def)

lemma finalize_derived:
  "sample_count s \<noteq> 0 \<Longrightarrow>
   mean (finalize_statistics s) = ddiv (sum_st s) (double_of_int (sample_count s))"
  "sample_count s \<noteq> 0 \<Longrightarrow>
   variance (finalize_statistics s) =
     dsub (ddiv (sum_squares s) (double_of_int (sample_count s)))
          (dmul (ddiv (sum_st s) (double_of_int (sample_count s)))
                (ddiv (sum_st s) (double_of_int (sample_count s))))"
  "sample_count s \<noteq> 0 \<Longrightarrow>
   std_deviation (finalize_statistics s) = dsqrt (variance (finalize_statistics s))"
  by (simp_all add: finalize_statistics_def Let_def)

lemma finalize_empty:
  "sample_count s = 0 \<Longrightarrow> finalize_statistics s = s"
  by (simp add: finalize_statistics_def)

section \<open>The statistics accumulator against its reference\<close>



section \<open>The derived variance\<close>

text \<open>
  Claim C3, as amended. For every state with a nonzero count, \<open>finalize_statistics\<close>
  derives the variance as \<open>sum_squares / count - mean * mean\<close> in double arithmetic and
  does not clamp it. The derived standard deviation is NaN exactly when that variance is
  NaN or negative, and it is never negative.
\<close>

theorem variance_unclamped:
  assumes "sample_count s \<noteq> 0"
  shows "variance (finalize_statistics s) =
           dsub (ddiv (sum_squares s) (double_of_int (sample_count s)))
                (dmul (mean (finalize_statistics s)) (mean (finalize_statistics s)))
       \<and> (std_deviation (finalize_statistics s) = NaN \<longleftrightarrow>
            variance (finalize_statistics s) = NaN \<or> dlt (variance (finalize_statistics s)) (Fin 0))
       \<and> \<not> dlt (std_deviation (finalize_statistics s)) (Fin 0)"
  using assms by (simp add: finalize_derived dsqrt_NaN_iff dsqrt_nonneg)

text \<open>The hypothesis of C3 holds at a state with two samples, sum 2 and sum of squares 10.\<close>

theorem variance_unclamped_witness:
  "sample_count (init_statistics\<lparr>sample_count := 2, sum_st := Fin 2, sum_squares := Fin 10\<rparr>) \<noteq> 0
   \<and> variance (finalize_statistics
        (init_statistics\<lparr>sample_count := 2, sum_st := Fin 2, sum_squares := Fin 10\<rparr>)) = Fin 4
   \<and> std_deviation (finalize_statistics
        (init_statistics\<lparr>sample_count := 2, sum_st := Fin 2, sum_squares := Fin 10\<rparr>)) \<noteq> NaN"
  using variance_unclamped
    [of "init_statistics\<lparr>sample_count := 2, sum_st := Fin 2, sum_squares := Fin 10\<rparr>"]
  by (simp add: finalize_statistics_def init_statistics_def double_of_int_def dsub_def rnd_values)

text \<open>
  Claim C3 as stated fails at the stream of three readings of the double nearest to
  \<open>0.1\<close>: the rounded sum of squares over 3 is below the rounded square of the mean,
  the variance is \<open>- 2^-59\<close>, about \<open>-1.73e-18\<close>, and the standard deviation is NaN.
\<close>

theorem variance_negative_counterexample:
  "0 < sample_count (run_statistics [Fin (3602879701896397 / 36028797018963968),
        Fin (3602879701896397 / 36028797018963968),
        Fin (3602879701896397 / 36028797018963968)])
   \<and> variance (run_statistics [Fin (3602879701896397 / 36028797018963968),
        Fin (3602879701896397 / 36028797018963968),
        Fin (3602879701896397 / 36028797018963968)]) = Fin (- (1 / 576460752303423488))
   \<and> dlt (variance (run_statistics [Fin (3602879701896397 / 36028797018963968),
        Fin (3602879701896397 / 36028797018963968),
        Fin (3602879701896397 / 36028797018963968)])) (Fin 0)
   \<and> std_deviation (run_statistics [Fin (3602879701896397 / 36028797018963968),
        Fin (3602879701896397 / 36028797018963968),
        Fin (3602879701896397 / 36028797018963968)]) = NaN"
proof -
  let ?xs = "[Fin (3602879701896397 / 36028797018963968),
        Fin (3602879701896397 / 36028797018963968),
        Fin (3602879701896397 / 36028797018963968)]"
  have c: "sample_count (feed_statistics ?xs init_statistics) = 3"
    using feed_init_count [of ?xs] by simp
  have s: "sum_st (feed_statistics ?xs init_statistics) = Fin (1351079888211149 / 4503599627370496)"
    by (simp add: feed_init_sum ref_sum_def rnd_values)
  have q: "sum_squares (feed_statistics ?xs init_statistics) = Fin (4323455642275677 / 144115188075855872)"
    by (simp add: feed_init_sum_squares ref_sum_squares_def rnd_values)
  have nz: "sample_count (feed_statistics ?xs init_statistics) \<noteq> 0" using c by simp
  have v: "variance (run_statistics ?xs) = Fin (- (1 / 576460752303423488))"
    unfolding run_statistics_def finalize_derived(2) [OF nz] c s q
    by (simp add: double_of_int_def dsub_def rnd_values)
  have d: "std_deviation (run_statistics ?xs) = dsqrt (variance (run_statistics ?xs))"
    unfolding run_statistics_def by (rule finalize_derived(3) [OF nz])
  have k: "sample_count (run_statistics ?xs) = 3"
    unfolding run_statistics_def by (simp add: finalize_fields c)
  show ?thesis unfolding d v k by simp
qed

lemma mod_neq_window:
  fixes i n c :: nat
  assumes "i < n" "n < i + c"
  shows "i mod c \<noteq> n mod c"
proof
  assume "i mod c = n mod c"
  then have "c dvd n - i" using assms(1) by (metis mod_eq_dvd_iff_nat less_imp_le)
  moreover have "0 < n - i" "n - i < c" using assms by arith+
  ultimately show False by (meson dvd_imp_le not_less)
qed

lemma c_rem_succ: "c_rem (int (n mod c) + 1) (int c) = int (Suc n mod c)"
proof -
  have e: "int (n mod c) + 1 = int (Suc (n mod c))" by simp
  have "c_rem (int (Suc (n mod c))) (int c) = int (Suc (n mod c)) mod int c"
    by (simp add: c_rem_def)
  also have "\<dots> = int (Suc (n mod c) mod c)"
    by (rule zmod_int [symmetric])
  also have "\<dots> = int (Suc n mod c)" by (simp add: mod_Suc_eq)
  finally show ?thesis unfolding e .
qed

lemma c_rem_succ2: "c_rem (1 + int n) (int c) = int (Suc n mod c)"
proof -
  have e: "1 + int n = int (Suc n)" by simp
  have "c_rem (int (Suc n)) (int c) = int (Suc n) mod int c"
    by (simp add: c_rem_def)
  also have "\<dots> = int (Suc n mod c)"
    by (rule zmod_int [symmetric])
  finally show ?thesis unfolding e .
qed

lemma running_sum_prefix:
  "k \<le> length xs \<Longrightarrow> running_sum c (xs @ ys) k = running_sum c xs k"
proof (induction k)
  case 0
  then show ?case by simp
next
  case (Suc k)
  then have "k < length xs" "k - c < length xs" by arith+
  then show ?case using Suc by (simp add: nth_append)
qed

lemma ma_update_step:
  assumes c: "0 < c" and inv: "ma_inv c xs m"
  shows "ma_inv c (xs @ [x]) (snd (update_moving_average m x))
       \<and> fst (update_moving_average m x) =
           ddiv (running_sum c (xs @ [x]) (Suc (length xs)))
                (double_of_int (int (min (Suc (length xs)) c)))"
proof -
  let ?n = "length xs"
  from inv obtain buf where
    buf: "buffer m = Some buf" and len: "length buf = c"
    and slots: "\<forall>i<?n. ?n \<le> i + c \<longrightarrow> buf ! (i mod c) = xs ! i"
    and bs: "buffer_size m = int c"
    and ci: "current_index m = int (?n mod c)"
    and sc: "ma_sample_count m = int (min ?n c)"
    and sm: "ma_sum m = running_sum c xs ?n"
    unfolding ma_inv_def by blast
  have idx: "?n mod c < c" using c by simp
  have newslots: "\<forall>i<Suc ?n. Suc ?n \<le> i + c \<longrightarrow> buf[?n mod c := x] ! (i mod c) = (xs @ [x]) ! i"
  proof (intro allI impI)
    fix i assume i: "i < Suc ?n" and w: "Suc ?n \<le> i + c"
    show "buf[?n mod c := x] ! (i mod c) = (xs @ [x]) ! i"
    proof (cases "i = ?n")
      case True
      then show ?thesis using idx len by simp
    next
      case False
      then have lt: "i < ?n" using i by simp
      have "i mod c \<noteq> ?n mod c" using lt w by (intro mod_neq_window) simp_all
      then have "buf[?n mod c := x] ! (i mod c) = buf ! (i mod c)" by simp
      also have "\<dots> = xs ! i" using slots lt w by simp
      finally show ?thesis using lt by (simp add: nth_append)
    qed
  qed
  have rs: "running_sum c (xs @ [x]) (Suc ?n) =
            dadd (if c \<le> ?n then dsub (running_sum c xs ?n) (xs ! (?n - c))
                  else running_sum c xs ?n) x"
  proof -
    have "c \<le> ?n \<Longrightarrow> ?n - c < ?n" using c by arith
    then show ?thesis by (auto simp: running_sum_prefix nth_append)
  qed
  show ?thesis
  proof (cases "c \<le> ?n")
    case True
    then have full: "ma_sample_count m \<ge> buffer_size m" using sc bs by simp
    have old: "buf ! (?n mod c) = xs ! (?n - c)"
    proof -
      have "?n - c < ?n" "?n \<le> (?n - c) + c" using True c by arith+
      then have "buf ! ((?n - c) mod c) = xs ! (?n - c)" using slots by blast
      moreover have "(?n - c) mod c = ?n mod c" using True by (simp add: le_mod_geq)
      ultimately show ?thesis by simp
    qed
    have mn: "min (Suc ?n) c = c" "min ?n c = c" using True by simp_all
    have upd: "update_moving_average m x =
          (ddiv (running_sum c (xs @ [x]) (Suc ?n)) (double_of_int (int c)),
           m\<lparr> ma_sum := running_sum c (xs @ [x]) (Suc ?n),
              buffer := Some (buf[?n mod c := x]),
              current_index := int (Suc ?n mod c) \<rparr>)"
      unfolding rs using full True
      by (simp add: update_moving_average_def buf Let_def ci old sm c_rem_succ bs sc mn)
    show ?thesis
      unfolding upd ma_inv_def using newslots len bs sc mn by simp
  next
    case False
    then have nf: "\<not> ma_sample_count m \<ge> buffer_size m" using sc bs by simp
    have mn: "min (Suc ?n) c = Suc ?n" "min ?n c = ?n" using False by simp_all
    have upd: "update_moving_average m x =
          (ddiv (running_sum c (xs @ [x]) (Suc ?n)) (double_of_int (int (Suc ?n))),
           m\<lparr> ma_sample_count := int (Suc ?n),
              buffer := Some (buf[?n mod c := x]),
              ma_sum := running_sum c (xs @ [x]) (Suc ?n),
              current_index := int (Suc ?n mod c) \<rparr>)"
      unfolding rs using nf False
      by (simp add: update_moving_average_def buf Let_def ci sm c_rem_succ2 bs sc mn add.commute)
    show ?thesis
      unfolding upd ma_inv_def using newslots len bs mn by simp
  qed
qed

lemma ma_inv_init:
  assumes "init_moving_average w = Some m0"
  shows "0 < w \<and> ma_inv (nat w) [] m0"
  using assms by (auto simp: init_moving_average_def ma_inv_def split: if_splits)

lemma ma_inv_feed:
  assumes "0 < c" and "ma_inv c [] m0"
  shows "ma_inv c xs (feed_moving_average xs m0)"
proof (induction xs rule: rev_induct)
  case Nil
  then show ?case using assms by (simp add: feed_moving_average_def)
next
  case (snoc x xs)
  have "feed_moving_average (xs @ [x]) m0
        = snd (update_moving_average (feed_moving_average xs m0) x)"
    by (simp add: feed_moving_average_def)
  then show ?case using ma_update_step [OF assms(1) snoc.IH] by simp
qed

section \<open>The moving average filter\<close>

text \<open>
  Claim C4, as amended. For a filter initialised with a capacity \<open>window_size > 0\<close> and
  every stream of doubles, \<open>update_moving_average\<close> returns the running sum divided by
  \<open>min n window_size\<close>, where \<open>n\<close> counts the values inserted so far, the new one
  included: the running sum adds every value in double arithmetic and, once the window
  is full, first subtracts the value inserted \<open>window_size\<close> steps earlier. The sample
  count is \<open>min n window_size\<close>, and the buffer has \<open>window_size\<close> slots in which the
  \<open>min n window_size\<close> most recent values stand, the value of index \<open>i\<close> in slot
  \<open>i mod window_size\<close>.
\<close>

theorem moving_average_running_sum:
  assumes "init_moving_average window_size = Some m0"
  shows "fst (update_moving_average (feed_moving_average xs m0) x) =
           ddiv (running_sum (nat window_size) (xs @ [x]) (length (xs @ [x])))
                (double_of_int (int (min (length (xs @ [x])) (nat window_size))))
       \<and> ma_sample_count (snd (update_moving_average (feed_moving_average xs m0) x)) =
           int (min (length (xs @ [x])) (nat window_size))
       \<and> (case buffer (snd (update_moving_average (feed_moving_average xs m0) x)) of
            None \<Rightarrow> False
          | Some buf \<Rightarrow>
              length buf = nat window_size
              \<and> list_all (\<lambda>i. buf ! (i mod nat window_size) = (xs @ [x]) ! i)
                   [length (xs @ [x]) - nat window_size..<length (xs @ [x])])"
proof -
  have c: "0 < nat window_size" and i0: "ma_inv (nat window_size) [] m0"
    using ma_inv_init [OF assms] by simp_all
  have inv: "ma_inv (nat window_size) xs (feed_moving_average xs m0)"
    using ma_inv_feed [OF c i0] .
  note st = ma_update_step [OF c inv, of x]
  from st have inv': "ma_inv (nat window_size) (xs @ [x])
      (snd (update_moving_average (feed_moving_average xs m0) x))" by simp
  have slots: "case buffer (snd (update_moving_average (feed_moving_average xs m0) x)) of
            None \<Rightarrow> False
          | Some buf \<Rightarrow>
              length buf = nat window_size
              \<and> list_all (\<lambda>i. buf ! (i mod nat window_size) = (xs @ [x]) ! i)
                   [length (xs @ [x]) - nat window_size..<length (xs @ [x])]"
    using inv' unfolding ma_inv_def list_all_iff by (auto split: option.splits)
  show ?thesis using st inv' slots by (simp add: ma_inv_def)
qed

text \<open>
  The hypothesis of C4 holds for a window of 2: after 1, 2, 6 the result is 4.
\<close>

theorem moving_average_running_sum_witness:
  "init_moving_average 2 =
     Some \<lparr>buffer = Some [Fin 0, Fin 0], buffer_size = 2, current_index = 0,
           ma_sample_count = 0, ma_sum = Fin 0\<rparr>
   \<and> fst (update_moving_average
           (feed_moving_average [Fin 1, Fin 2]
              \<lparr>buffer = Some [Fin 0, Fin 0], buffer_size = 2, current_index = 0,
               ma_sample_count = 0, ma_sum = Fin 0\<rparr>) (Fin 6)) = Fin 4
   \<and> ma_sample_count (snd (update_moving_average
           (feed_moving_average [Fin 1, Fin 2]
              \<lparr>buffer = Some [Fin 0, Fin 0], buffer_size = 2, current_index = 0,
               ma_sample_count = 0, ma_sum = Fin 0\<rparr>) (Fin 6))) = 2"
proof -
  have i: "init_moving_average 2 =
     Some \<lparr>buffer = Some [Fin 0, Fin 0], buffer_size = 2, current_index = 0,
           ma_sample_count = 0, ma_sum = Fin 0\<rparr>"
    by (simp add: init_moving_average_def numeral_2_eq_2)
  have r: "running_sum 2 [Fin 1, Fin 2, Fin 6] (Suc (Suc (Suc 0))) = Fin 8"
    by (simp add: dsub_def rnd_values)
  show ?thesis
    using moving_average_running_sum [OF i, of "[Fin 1, Fin 2]" "Fin 6"] i r
    by (simp add: double_of_int_def rnd_values)
qed

text \<open>
  Claim C4 as stated fails for a window of 2 at the stream \<open>1e16\<close>, 1, 1: the running
  sum absorbs the first 1 by rounding, the eviction of \<open>1e16\<close> leaves 0, and the
  result is \<open>0.5\<close> where the mean of the two most recent values is 1. At the stream
  inf, 1, 1 the eviction of the infinity leaves NaN.
\<close>

theorem moving_average_rounding_counterexample:
  "init_moving_average 2 =
     Some \<lparr>buffer = Some [Fin 0, Fin 0], buffer_size = 2, current_index = 0,
           ma_sample_count = 0, ma_sum = Fin 0\<rparr>
   \<and> fst (update_moving_average
           (snd (update_moving_average
              (snd (update_moving_average
                 \<lparr>buffer = Some [Fin 0, Fin 0], buffer_size = 2, current_index = 0,
                  ma_sample_count = 0, ma_sum = Fin 0\<rparr> (Fin 10000000000000000))) (Fin 1)))
           (Fin 1)) = Fin (1 / 2)
   \<and> Fin (1 / 2) \<noteq> Fin ((1 + 1) / 2)
   \<and> fst (update_moving_average
           (snd (update_moving_average
              (snd (update_moving_average
                 \<lparr>buffer = Some [Fin 0, Fin 0], buffer_size = 2, current_index = 0,
                  ma_sample_count = 0, ma_sum = Fin 0\<rparr> PInf)) (Fin 1))) (Fin 1)) = NaN"
  by (simp add: init_moving_average_def update_moving_average_def Let_def c_rem_def dsub_def
      double_of_int_def numeral_2_eq_2 rnd_values)

section \<open>The anomaly detector\<close>

text \<open>
  Claim C5. For every reading, whatever its value, and every baseline whose
  \<open>sample_count\<close> is below \<open>min_samples_for_analysis\<close>, \<open>detect_anomaly\<close> returns the
  warm-up result: \<open>is_anomaly = 0\<close>, severity \<open>0\<close> and the description \<open>Normal\<close>.
\<close>

theorem detect_anomaly_warm_up:
  assumes "sample_count baseline_stats < min_samples_for_analysis cfg"
  shows "is_anomaly (detect_anomaly fmt2 data baseline_stats cfg) = 0
       \<and> severity (detect_anomaly fmt2 data baseline_stats cfg) = Fin 0
       \<and> description (detect_anomaly fmt2 data baseline_stats cfg) = ''Normal''"
  using assms by (simp add: detect_anomaly_def)

text \<open>
  The hypothesis of C5 holds for a baseline of 4 samples against a minimum of 5, with
  a reading of plus infinity.
\<close>

theorem detect_anomaly_warm_up_witness:
  "sample_count (init_statistics\<lparr>sample_count := 4, mean := Fin 1, std_deviation := Fin 0\<rparr>)
     < min_samples_for_analysis
         \<lparr>threshold_multiplier = Fin 2, absolute_threshold = Fin 1, cfg_window_size = 50,
          min_samples_for_analysis = 5\<rparr>
   \<and> is_anomaly (detect_anomaly (\<lambda>x. [])
        \<lparr>sd_type = 1, sd_value = PInf, sd_timestamp = \<lparr>timestamp = 0, nanoseconds = 0\<rparr>,
         sd_unit = [], sd_description = []\<rparr>
        (init_statistics\<lparr>sample_count := 4, mean := Fin 1, std_deviation := Fin 0\<rparr>)
        \<lparr>threshold_multiplier = Fin 2, absolute_threshold = Fin 1, cfg_window_size = 50,
         min_samples_for_analysis = 5\<rparr>) = 0
   \<and> severity (detect_anomaly (\<lambda>x. [])
        \<lparr>sd_type = 1, sd_value = PInf, sd_timestamp = \<lparr>timestamp = 0, nanoseconds = 0\<rparr>,
         sd_unit = [], sd_description = []\<rparr>
        (init_statistics\<lparr>sample_count := 4, mean := Fin 1, std_deviation := Fin 0\<rparr>)
        \<lparr>threshold_multiplier = Fin 2, absolute_threshold = Fin 1, cfg_window_size = 50,
         min_samples_for_analysis = 5\<rparr>) = Fin 0"
  using detect_anomaly_warm_up [of
      "init_statistics\<lparr>sample_count := 4, mean := Fin 1, std_deviation := Fin 0\<rparr>"
      "\<lparr>threshold_multiplier = Fin 2, absolute_threshold = Fin 1, cfg_window_size = 50,
        min_samples_for_analysis = 5\<rparr>"
      "\<lambda>x. []"
      "\<lparr>sd_type = 1, sd_value = PInf, sd_timestamp = \<lparr>timestamp = 0, nanoseconds = 0\<rparr>,
        sd_unit = [], sd_description = []\<rparr>"]
  by (simp add: init_statistics_def)



section \<open>The trend estimator\<close>

text \<open>
  Claim C7. \<open>analyze_trend\<close> returns the neutral result (direction \<open>stable\<close>, slope,
  correlation and confidence 0) whenever \<open>count < window_size\<close> or \<open>window_size < 2\<close>,
  and whenever the denominator \<open>n * sum_x2 - sum_x * sum_x\<close> of the regression is not
  above \<open>1e-10\<close> in absolute value; the guard stands in front of the whole regression,
  whatever the sums are.
\<close>

theorem analyze_trend_neutral:
  "(count < window_size \<or> window_size < 2 \<longrightarrow>
      analyze_trend data_array count window_size =
        \<lparr>slope = Fin 0, correlation = Fin 0, trend_direction = ''stable'', confidence = Fin 0\<rparr>)
   \<and> (\<not> dgt (fabs (trend_denominator window_size
                      (trend_sums data_array (count - window_size) window_size)))
              c_1e_10 \<longrightarrow>
      analyze_trend data_array count window_size =
        \<lparr>slope = Fin 0, correlation = Fin 0, trend_direction = ''stable'', confidence = Fin 0\<rparr>)
   \<and> (\<not> dgt (fabs (trend_denominator window_size acc)) c_1e_10 \<longrightarrow>
      trend_regression data_array start_idx window_size acc =
        \<lparr>slope = Fin 0, correlation = Fin 0, trend_direction = ''stable'', confidence = Fin 0\<rparr>)"
  by (cases acc; cases "trend_sums data_array (count - window_size) window_size")
     (simp add: analyze_trend_def trend_regression_def neutral_trend_def Let_def)

text \<open>
  The three hypotheses of C7 hold at 3 samples for a window of 5, at a window of 1, and
  at sums whose denominator is zero.
\<close>

theorem analyze_trend_neutral_witness:
  "((3::int) < 5 \<or> (5::int) < 2)
   \<and> analyze_trend [] 3 5 =
        \<lparr>slope = Fin 0, correlation = Fin 0, trend_direction = ''stable'', confidence = Fin 0\<rparr>
   \<and> \<not> dgt (fabs (trend_denominator 1
               (trend_sums [\<lparr>sd_type = 1, sd_value = Fin 7,
                             sd_timestamp = \<lparr>timestamp = 0, nanoseconds = 0\<rparr>,
                             sd_unit = [], sd_description = []\<rparr>] (1 - 1) 1)))
            c_1e_10
   \<and> analyze_trend [\<lparr>sd_type = 1, sd_value = Fin 7,
                       sd_timestamp = \<lparr>timestamp = 0, nanoseconds = 0\<rparr>,
                       sd_unit = [], sd_description = []\<rparr>] 1 1 =
        \<lparr>slope = Fin 0, correlation = Fin 0, trend_direction = ''stable'', confidence = Fin 0\<rparr>
   \<and> \<not> dgt (fabs (trend_denominator 5 (Fin 0, Fin 0, Fin 0, Fin 0))) c_1e_10
   \<and> trend_regression [] 0 5 (Fin 0, Fin 0, Fin 0, Fin 0) =
        \<lparr>slope = Fin 0, correlation = Fin 0, trend_direction = ''stable'', confidence = Fin 0\<rparr>"
proof -
  have eps: "\<not> dlt c_1e_10 (Fin 0)"
    by (simp add: c_1e_10_def rnd_values)
  show ?thesis
    using analyze_trend_neutral [of 3 5 "[]" "(Fin 0, Fin 0, Fin 0, Fin 0)" 0]
      analyze_trend_neutral [of 1 1 "[\<lparr>sd_type = 1, sd_value = Fin 7,
                       sd_timestamp = \<lparr>timestamp = 0, nanoseconds = 0\<rparr>,
                       sd_unit = [], sd_description = []\<rparr>]" "(Fin 0, Fin 0, Fin 0, Fin 0)" 0]
      eps
    by (simp add: trend_denominator_def trend_sums_def double_of_int_def dsub_def dgt_def Let_def
        rnd_values)
qed

section \<open>The peak frequency estimator\<close>



lemma c_0_1_value: "c_0_1 = Fin (3602879701896397 / 36028797018963968)"
  by (simp add: c_0_1_def rnd_values)







lemma dlt_trans: "dlt a b \<Longrightarrow> dlt b c \<Longrightarrow> dlt a c"
  by (cases a; cases b; cases c) simp_all

lemma peak_fold_nonneg:
  "snd s = Fin 0 \<or> dlt (Fin 0) (snd s) \<Longrightarrow>
   snd (fold (peak_step vs) idx s) = Fin 0 \<or> dlt (Fin 0) (snd (fold (peak_step vs) idx s))"
proof (induction idx arbitrary: s)
  case Nil
  then show ?case by simp
next
  case (Cons i idx)
  have "snd (peak_step vs i s) = Fin 0 \<or> dlt (Fin 0) (snd (peak_step vs i s))"
    using Cons.prems
    by (cases s) (auto simp: peak_step_def dgt_def intro: dlt_trans)
  from Cons.IH [OF this] show ?case by simp
qed

lemma peak_fold_zero:
  "snd s = Fin 0 \<Longrightarrow>
   list_all (\<lambda>i. \<not> (dgt (vs ! i) (vs ! (i - 1)) \<and> dgt (vs ! i) (vs ! (i + 1))
                      \<and> dgt (vs ! i) (Fin 0))) idx \<Longrightarrow>
   snd (fold (peak_step vs) idx s) = Fin 0"
proof (induction idx arbitrary: s)
  case Nil
  then show ?case by simp
next
  case (Cons i idx)
  have "snd (peak_step vs i s) = Fin 0"
    using Cons.prems by (cases s) (auto simp: peak_step_def)
  from Cons.IH [OF this] Cons.prems(2) show ?case by simp
qed

text \<open>
  Claim C10. Whenever \<open>analyze_frequency_spectrum\<close> returns a result, the amplitude is
  not below zero and is not NaN; and when no strict interior local maximum is above
  zero (they are all negative or zero, or there is none), the amplitude is 0.
\<close>

theorem frequency_amplitude_nonneg:
  assumes "analyze_frequency_spectrum vs n = Some (f, a)"
  shows "\<not> dlt a (Fin 0) \<and> a \<noteq> NaN
       \<and> (list_all (\<lambda>i. \<not> (dgt (vs ! i) (vs ! (i - 1)) \<and> dgt (vs ! i) (vs ! (i + 1))
                              \<and> dgt (vs ! i) (Fin 0))) [1..<nat (n - 1)]
          \<longrightarrow> a = Fin 0)"
proof -
  have a: "a = snd (peak_scan vs n)"
    using assms by (auto simp: analyze_frequency_spectrum_def Let_def split: if_splits prod.splits)
  have "a = Fin 0 \<or> dlt (Fin 0) a"
    unfolding a peak_scan_def by (rule peak_fold_nonneg) simp
  then have "\<not> dlt a (Fin 0) \<and> a \<noteq> NaN" by (cases a) auto
  moreover have "list_all (\<lambda>i. \<not> (dgt (vs ! i) (vs ! (i - 1)) \<and> dgt (vs ! i) (vs ! (i + 1))
                              \<and> dgt (vs ! i) (Fin 0))) [1..<nat (n - 1)] \<longrightarrow> a = Fin 0"
    unfolding a peak_scan_def by (auto intro: peak_fold_zero)
  ultimately show ?thesis by blast
qed

text \<open>
  The hypotheses of C10 hold at the samples -3, -1, -2, -5: the only peak is -1 and the
  amplitude is 0.
\<close>

theorem frequency_amplitude_nonneg_witness:
  "analyze_frequency_spectrum [Fin (- 3), Fin (- 1), Fin (- 2), Fin (- 5)] 4 = Some (Fin (5 / 2), Fin 0)
   \<and> list_all (\<lambda>i. \<not> (dgt ([Fin (- 3), Fin (- 1), Fin (- 2), Fin (- 5)] ! i)
                          ([Fin (- 3), Fin (- 1), Fin (- 2), Fin (- 5)] ! (i - 1))
                    \<and> dgt ([Fin (- 3), Fin (- 1), Fin (- 2), Fin (- 5)] ! i)
                          ([Fin (- 3), Fin (- 1), Fin (- 2), Fin (- 5)] ! (i + 1))
                    \<and> dgt ([Fin (- 3), Fin (- 1), Fin (- 2), Fin (- 5)] ! i) (Fin 0)))
        [1..<nat (4 - 1)]
   \<and> \<not> dlt (Fin 0) (Fin 0)"
proof -
  have e: "analyze_frequency_spectrum [Fin (- 3), Fin (- 1), Fin (- 2), Fin (- 5)] 4
           = Some (Fin (5 / 2), Fin 0)"
    by (simp add: analyze_frequency_spectrum_def peak_scan_def peak_step_def dgt_def
        double_of_int_def Let_def upt_rec [of _ 3] upt_rec [of _ 2] upt_rec [of _ 1] nat_numeral
        c_0_1_value rnd_values)
  show ?thesis
    using frequency_amplitude_nonneg [OF e] e
    by (simp add: dgt_def upt_rec [of _ 3] upt_rec [of _ 2] upt_rec [of _ 1] nat_numeral)
qed

section \<open>The bridge classifier\<close>







lemma c_0_8_value: "c_0_8 = Fin (3602879701896397 / 4503599627370496)"
  by (simp add: c_0_8_def rnd_values)



section \<open>Flush and rotation of the log file\<close>





















end
